theory Spec2Isabelle
  imports Main
begin

section \<open>Data model\<close>

text \<open>
  The controller \<^verbatim>\<open>src/controllers/auth.controller.js\<close> works on three collaborators:
  the \<^verbatim>\<open>User\<close> collection, the \<^verbatim>\<open>LoginLogs\<close> collection and the mail transporter.
  A document of the \<^verbatim>\<open>User\<close> collection is an \<open>account\<close>; its \<^verbatim>\<open>_id\<close> is \<open>uid\<close>.
\<close>

record account =
  uid :: nat
  name :: string
  email :: string
  password :: string
  isVerified :: bool
  isLocked :: bool
  loginAttempts :: nat

text \<open>
  The object handed to \<^verbatim>\<open>LoginLogs.create\<close> in \<^verbatim>\<open>createLoginLog\<close>; \<open>None\<close> is the
  JavaScript \<^verbatim>\<open>null\<close>.
\<close>

record login_log =
  log_userId :: "nat option"
  log_name :: "string option"
  log_email :: string
  log_status :: string
  ipAddress :: "string option"
  userAgent :: "string option"
  reason :: "string option"

text \<open>The \<^verbatim>\<open>mailOptions\<close> object handed to \<^verbatim>\<open>transporter.sendMail\<close>.\<close>

record mail =
  mail_from :: string
  mail_to :: string
  mail_subject :: string
  mail_text :: string

text \<open>
  A JavaScript \<^verbatim>\<open>Error\<close> as the centralized responder receives it: its message and the
  \<^verbatim>\<open>statusCode\<close> property, which is absent (\<open>None\<close>) on an error that a collaborator
  threw and the handler's outer \<^verbatim>\<open>catch\<close> forwarded untouched.
\<close>

record http_error =
  err_message :: string
  statusCode :: "nat option"

text \<open>The \<^verbatim>\<open>data\<close> member of a response body.\<close>

datatype resp_data =
    NoData
  | TokenUser string account
  | TokenUrl string string

text \<open>
  How a handler ends: \<open>Next e\<close> is \<^verbatim>\<open>next(error)\<close>, the hand-over to the centralized
  responder; \<open>Json status success message data\<close> is
  \<^verbatim>\<open>res.status(status).json({success, message, data})\<close>, a response the handler writes itself.
\<close>

datatype outcome =
    Next http_error
  | Json nat bool string resp_data

text \<open>The durable state: both collections and the mails the transporter accepted.\<close>

record store =
  users :: "account list"
  loginLogs :: "login_log list"
  sent :: "mail list"

text \<open>
  The libraries and the configuration the controller imports. They are parameters of the
  model: \<^verbatim>\<open>bcryptjs\<close> (salt generation, hashing, comparison), \<^verbatim>\<open>jsonwebtoken\<close> with
  the process-wide secret (\<open>jwt_sign userId expiresIn\<close>; \<open>jwt_verify token\<close> is the decoded
  \<^verbatim>\<open>userId\<close>, or \<open>None\<close> where \<^verbatim>\<open>jwt.verify\<close> throws on a bad signature or an expired
  token), the mail transporter (\<open>sendMail m\<close> is \<open>None\<close> when the mail is delivered and
  \<open>Some e\<close> when \<^verbatim>\<open>sendMail\<close> throws \<open>e\<close>) and \<^verbatim>\<open>JWT_EXPIRES_IN\<close>.
\<close>

record env =
  bcrypt_genSalt :: "nat \<Rightarrow> string"
  bcrypt_hash :: "string \<Rightarrow> string \<Rightarrow> string"
  bcrypt_compare :: "string \<Rightarrow> string \<Rightarrow> bool"
  jwt_sign :: "nat \<Rightarrow> string \<Rightarrow> string"
  jwt_verify :: "string \<Rightarrow> nat option"
  sendMail :: "mail \<Rightarrow> http_error option"
  JWT_EXPIRES_IN :: string

section \<open>JavaScript helpers\<close>

text \<open>
  A field of \<^verbatim>\<open>req.body\<close> or \<^verbatim>\<open>req.params\<close> that the handler tests with \<^verbatim>\<open>!x\<close> is a
  \<open>string option\<close>: \<open>None\<close> is \<^verbatim>\<open>undefined\<close>. \<^verbatim>\<open>!x\<close> holds for \<^verbatim>\<open>undefined\<close> and
  for the empty string.
\<close>

definition falsy :: "string option \<Rightarrow> bool" where
  "falsy x = (case x of None \<Rightarrow> True | Some v \<Rightarrow> v = [])"

text \<open>
  The string a field holds once \<^verbatim>\<open>!x\<close> has been found to fail: every use below is
  behind such a test (or behind an equality with a field that passed one), so the value at
  \<open>None\<close> is never looked at.
\<close>

definition string_of :: "string option \<Rightarrow> string" where
  "string_of x = (case x of None \<Rightarrow> [] | Some v \<Rightarrow> v)"

text \<open>\<^verbatim>\<open>x || null\<close> on a string.\<close>

definition or_null :: "string \<Rightarrow> string option" where
  "or_null x = (if x = [] then None else Some x)"

text \<open>
  \<^verbatim>\<open>typeof x !== 'undefined' ? x : null\<close>, where the argument is what the identifier
  resolves to (\<open>None\<close> for an identifier with no binding).
\<close>

definition typeof_defined_or_null :: "string option \<Rightarrow> string option" where
  "typeof_defined_or_null x = (case x of None \<Rightarrow> None | Some v \<Rightarrow> Some v)"

text \<open>
  Neither the module nor \<^verbatim>\<open>signIn\<close> declares \<^verbatim>\<open>ipAddress\<close> or \<^verbatim>\<open>userAgent\<close>: the
  module's bindings are its six imports and its six exported handlers, and the handler's
  are \<^verbatim>\<open>req\<close>, \<^verbatim>\<open>res\<close>, \<^verbatim>\<open>next\<close>, \<^verbatim>\<open>email\<close>, \<^verbatim>\<open>password\<close>, \<^verbatim>\<open>user\<close>,
  \<^verbatim>\<open>createLoginLog\<close>, \<^verbatim>\<open>isPasswordValid\<close> and \<^verbatim>\<open>token\<close>. Both identifiers
  resolve to nothing.
\<close>

definition scope_ipAddress :: "string option" where
  "scope_ipAddress = None"

definition scope_userAgent :: "string option" where
  "scope_userAgent = None"

text \<open>The decimal rendering of a number inside a template literal.\<close>

definition digit_char :: "nat \<Rightarrow> char" where
  "digit_char d = ''0123456789'' ! d"

function show_nat :: "nat \<Rightarrow> string" where
  "show_nat n =
     (if n < 10 then [digit_char n] else show_nat (n div 10) @ [digit_char (n mod 10)])"
  by pat_completeness auto
termination
  by (relation "measure id") auto

declare show_nat.simps [simp del]

section \<open>The collections\<close>

text \<open>
  \<^verbatim>\<open>User.findOne({email})\<close> and \<^verbatim>\<open>User.findById(id)\<close> return the first matching
  document or \<^verbatim>\<open>null\<close>.
\<close>

definition findOne :: "store \<Rightarrow> string \<Rightarrow> account option" where
  "findOne s e = find (\<lambda>u. email u = e) (users s)"

definition findById :: "store \<Rightarrow> nat \<Rightarrow> account option" where
  "findById s i = find (\<lambda>u. uid u = i) (users s)"

text \<open>\<^verbatim>\<open>user.save()\<close> writes the in-memory document over the stored one with its id.\<close>

definition save :: "account \<Rightarrow> store \<Rightarrow> store" where
  "save u s = s\<lparr>users := map (\<lambda>v. if uid v = uid u then u else v) (users s)\<rparr>"

text \<open>
  Modelled from the spec: the schema of \<^verbatim>\<open>models/user.model.js\<close> is not among the
  sources. The data model of the specification gives the defaults of the two fields that
  \<^verbatim>\<open>signUp\<close> does not pass to \<^verbatim>\<open>User.create\<close>: \<^verbatim>\<open>isLocked\<close> defaults to false and
  \<^verbatim>\<open>loginAttempts\<close> to 0.
\<close>

definition default_isLocked :: bool where
  "default_isLocked = False"

definition default_loginAttempts :: nat where
  "default_loginAttempts = 0"

text \<open>
  \<^verbatim>\<open>User.create({name, email, password, isVerified})\<close>: the new document gets an id no
  stored document has (documents are never deleted, so the number of stored documents is
  such an id) and the schema defaults. The model covers documents that pass the schema's
  validators.
\<close>

definition create :: "string \<Rightarrow> string \<Rightarrow> string \<Rightarrow> bool \<Rightarrow> store \<Rightarrow> account \<times> store" where
  "create n e h v s =
     (let u = \<lparr>uid = length (users s), name = n, email = e, password = h, isVerified = v,
                isLocked = default_isLocked, loginAttempts = default_loginAttempts\<rparr>
      in (u, s\<lparr>users := users s @ [u]\<rparr>))"

text \<open>\<^verbatim>\<open>new Error(message)\<close> followed by \<^verbatim>\<open>error.statusCode = code\<close>.\<close>

definition mk_error :: "string \<Rightarrow> nat \<Rightarrow> http_error" where
  "mk_error m c = \<lparr>err_message = m, statusCode = Some c\<rparr>"

section \<open>Collaborators that throw\<close>

text \<open>
  Every handler body is one \<^verbatim>\<open>try\<close> block whose \<^verbatim>\<open>catch\<close> hands the error to
  \<^verbatim>\<open>next\<close> as it is. The calls inside that can throw (or reject) are the calls to the
  collections, to \<^verbatim>\<open>bcryptjs\<close> and to \<^verbatim>\<open>jwt.sign\<close>; the transporter's failure is
  \<open>sendMail\<close> of the environment, and \<^verbatim>\<open>jwt.verify\<close> has its own \<^verbatim>\<open>catch\<close>.
\<close>

datatype call =
    User_findOne string
  | User_findById nat
  | User_create string string string bool
  | User_save account
  | LoginLogs_create login_log
  | Bcrypt_genSalt nat
  | Bcrypt_hash string string
  | Bcrypt_compare string string
  | Jwt_sign nat string

text \<open>
  Which calls fail while one request is handled, and with which error: \<open>None\<close> for a
  call that returns.
\<close>

type_synonym faults = "call \<Rightarrow> http_error option"

definition no_faults :: faults where
  "no_faults = (\<lambda>c. None)"

text \<open>
  A call inside the \<^verbatim>\<open>try\<close> block, made when the store is \<open>s\<close>: if it throws, the
  handler ends with \<^verbatim>\<open>next(error)\<close> and the store stays as written so far; if it
  returns, the handler goes on with \<open>k\<close>.
\<close>

definition await_call :: "faults \<Rightarrow> call \<Rightarrow> store \<Rightarrow> outcome \<times> store \<Rightarrow> outcome \<times> store" where
  "await_call f c s k = (case f c of Some err \<Rightarrow> (Next err, s) | None \<Rightarrow> k)"

text \<open>
  What \<^verbatim>\<open>bcrypt.compare\<close> of \<^verbatim>\<open>bcryptjs\<close> rejects with when its first argument is
  \<^verbatim>\<open>undefined\<close>: an \<^verbatim>\<open>Error\<close> without a \<^verbatim>\<open>statusCode\<close>.
\<close>

definition bcrypt_illegal_arguments :: http_error where
  "bcrypt_illegal_arguments =
     \<lparr>err_message = ''Illegal arguments: undefined, string'', statusCode = None\<rparr>"

section \<open>The handlers\<close>

subsection \<open>signUp\<close>

definition verification_mail :: "string \<Rightarrow> string \<Rightarrow> string \<Rightarrow> mail" where
  "verification_mail n e verificationToken =
     (let verificationURL = ''http://yourfrontend.com/verify-email/'' @ verificationToken
      in \<lparr>mail_from = ''noreply@noreply.com'',
          mail_to = e,
          mail_subject = ''Email Verification'',
          mail_text = ''Hello '' @ n @ '',\<newline>\<newline>''
            @ ''Please verify your email by clicking the link:\<newline>''
            @ verificationURL @ ''\<newline>\<newline>''
            @ ''This link will expire in 24 hours.\<newline>''\<rparr>)"

text \<open>
  The arguments are the four fields of \<^verbatim>\<open>req.body\<close>. \<^verbatim>\<open>password !== confirmPassword\<close>
  is reached only with a non-empty \<^verbatim>\<open>confirmPassword\<close>, and the hash is computed only
  when \<^verbatim>\<open>password\<close> is that same string.
\<close>

definition signUp ::
  "faults \<Rightarrow> env \<Rightarrow> store \<Rightarrow> string \<Rightarrow> string \<Rightarrow> string option \<Rightarrow> string option
     \<Rightarrow> outcome \<times> store" where
  "signUp f env s n e pw confirmPassword =
     await_call f (User_findOne e) s
       (let existingUser = findOne s e in
        if falsy confirmPassword then (Json 400 False ''Confirm password is empty'' NoData, s)
        else if existingUser \<noteq> None then (Next (mk_error ''User already exists'' 409), s)
        else if pw \<noteq> confirmPassword then (Next (mk_error ''Passwords do not match'' 400), s)
        else
          await_call f (Bcrypt_genSalt 10) s
            (let salt = bcrypt_genSalt env 10 in
             await_call f (Bcrypt_hash (string_of pw) salt) s
               (let hashedPassword = bcrypt_hash env (string_of pw) salt in
                await_call f (User_create n e hashedPassword False) s
                  (let (newUser, s1) = create n e hashedPassword False s in
                   await_call f (Jwt_sign (uid newUser) (JWT_EXPIRES_IN env)) s1
                     (let verificationToken = jwt_sign env (uid newUser) (JWT_EXPIRES_IN env);
                          m = verification_mail n e verificationToken
                      in (case sendMail env m of
                            Some err \<Rightarrow> (Next err, s1)
                          | None \<Rightarrow>
                              (Json 201 True ''User created successfully''
                                 (TokenUser verificationToken newUser),
                               s1\<lparr>sent := sent s1 @ [m]\<rparr>)))))))"

subsection \<open>signIn\<close>

text \<open>The document \<^verbatim>\<open>createLoginLog\<close> hands to \<^verbatim>\<open>LoginLogs.create\<close>.\<close>

definition login_log_entry ::
  "account option \<Rightarrow> string \<Rightarrow> string \<Rightarrow> string option \<Rightarrow> login_log" where
  "login_log_entry user e status rsn =
     \<lparr>log_userId = (case user of None \<Rightarrow> None | Some u \<Rightarrow> Some (uid u)),
      log_name = (case user of None \<Rightarrow> None | Some u \<Rightarrow> or_null (name u)),
      log_email = e,
      log_status = status,
      ipAddress = typeof_defined_or_null scope_ipAddress,
      userAgent = typeof_defined_or_null scope_userAgent,
      reason = rsn\<rparr>"

text \<open>\<^verbatim>\<open>createLoginLog(status, reason)\<close> when \<^verbatim>\<open>LoginLogs.create\<close> returns.\<close>

definition createLoginLog ::
  "account option \<Rightarrow> string \<Rightarrow> string \<Rightarrow> string option \<Rightarrow> store \<Rightarrow> store" where
  "createLoginLog user e status rsn s =
     s\<lparr>loginLogs := loginLogs s @ [login_log_entry user e status rsn]\<rparr>"

text \<open>
  The end of \<^verbatim>\<open>signIn\<close> once the password has matched and the counter is dealt with:
  the token, the success entry, the response.
\<close>

definition signIn_respond ::
  "faults \<Rightarrow> env \<Rightarrow> string \<Rightarrow> account \<Rightarrow> store \<Rightarrow> outcome \<times> store" where
  "signIn_respond f env e user s =
     await_call f (Jwt_sign (uid user) (JWT_EXPIRES_IN env)) s
       (let token = jwt_sign env (uid user) (JWT_EXPIRES_IN env) in
        await_call f (LoginLogs_create (login_log_entry (Some user) e ''success'' None)) s
          (Json 200 True ''User signed in successfully'' (TokenUser token user),
           createLoginLog (Some user) e ''success'' None s))"

text \<open>
  The arguments are \<^verbatim>\<open>email\<close> and \<^verbatim>\<open>password\<close> of \<^verbatim>\<open>req.body\<close>, and the client
  address and user agent the request carries (\<^verbatim>\<open>req.ip\<close>, the \<^verbatim>\<open>User-Agent\<close> header),
  which the handler has at hand in \<^verbatim>\<open>req\<close>. The handler does not test \<^verbatim>\<open>password\<close>
  before it calls \<^verbatim>\<open>bcrypt.compare\<close>: a body without one makes that call throw.
  \<^verbatim>\<open>(user.loginAttempts || 0) + 1\<close> is \<open>loginAttempts user + 1\<close> on a counter that is a
  number.
\<close>

definition signIn ::
  "faults \<Rightarrow> env \<Rightarrow> store \<Rightarrow> string \<Rightarrow> string option \<Rightarrow> string option \<Rightarrow> string option
     \<Rightarrow> outcome \<times> store" where
  "signIn f env s e pw req_ip req_userAgent =
     await_call f (User_findOne e) s
       (case findOne s e of
          None \<Rightarrow> (Next (mk_error ''User not found'' 404), s)
        | Some user \<Rightarrow>
            if \<not> isVerified user
            then (Next (mk_error ''Please verify your email before signing in'' 403), s)
            else if isLocked user
            then (Next (mk_error ''Account is locked. Please contact administrator'' 403), s)
            else
              (case pw of
                 None \<Rightarrow> (Next bcrypt_illegal_arguments, s)
               | Some p \<Rightarrow>
                   await_call f (Bcrypt_compare p (password user)) s
                     (let isPasswordValid = bcrypt_compare env p (password user) in
                      if \<not> isPasswordValid then
                        (let user1 = user\<lparr>loginAttempts := loginAttempts user + 1\<rparr> in
                         if loginAttempts user1 \<ge> 5 then
                           (let user2 = user1\<lparr>isLocked := True\<rparr> in
                            await_call f (User_save user2) s
                              (Next (mk_error
                                 ''Account locked due to multiple failed attempts. Please contact administrator''
                                 403), save user2 s))
                         else
                           await_call f (User_save user1) s
                             (let s1 = save user1 s in
                              await_call f
                                (LoginLogs_create
                                   (login_log_entry (Some user1) e ''failed''
                                      (Some ''Invalid password''))) s1
                                (Next (mk_error
                                   (''Invalid password. '' @ show_nat (5 - loginAttempts user1)
                                      @ '' attempts remaining'') 401),
                                 createLoginLog (Some user1) e ''failed''
                                   (Some ''Invalid password'') s1)))
                      else if loginAttempts user > 0 then
                        (let user1 = user\<lparr>loginAttempts := 0\<rparr> in
                         await_call f (User_save user1) s
                           (signIn_respond f env e user1 (save user1 s)))
                      else signIn_respond f env e user s)))"

subsection \<open>signOut\<close>

text \<open>The cookies the handler clears, and its response.\<close>

definition signOut :: "string list \<times> outcome" where
  "signOut = ([''token''], Json 200 True ''User signed out successfully'' NoData)"

subsection \<open>forgotPassword\<close>

definition reset_mail :: "account \<Rightarrow> string \<Rightarrow> mail" where
  "reset_mail user resetURL =
     \<lparr>mail_from = ''noreply@noreply.com'',
      mail_to = email user,
      mail_subject = ''Password Reset Request'',
      mail_text = ''Hello '' @ name user @ '',\<newline>\<newline>''
        @ ''You have requested to reset your password.\<newline>\<newline>''
        @ ''Please click on the following link to reset your password:\<newline>''
        @ resetURL @ ''\<newline>\<newline>''
        @ ''This link will expire in 1 hour.\<newline>\<newline>''
        @ ''If you did not request this, please ignore this email.\<newline>''\<rparr>"

definition forgotPassword ::
  "faults \<Rightarrow> env \<Rightarrow> store \<Rightarrow> string option \<Rightarrow> outcome \<times> store" where
  "forgotPassword f env s e =
     (if falsy e then (Next (mk_error ''Email is required'' 401), s)
      else
        await_call f (User_findOne (string_of e)) s
          (case findOne s (string_of e) of
             None \<Rightarrow> (Next (mk_error ''User not found'' 404), s)
           | Some user \<Rightarrow>
               await_call f (Jwt_sign (uid user) ''1h'') s
                 (let resetToken = jwt_sign env (uid user) ''1h'';
                      resetURL = ''http://yourfrontend.com/reset-password/'' @ resetToken;
                      m = reset_mail user resetURL
                  in (case sendMail env m of
                        Some err \<Rightarrow> (Next err, s)
                      | None \<Rightarrow>
                          (Json 200 True ''Password reset link sent to email''
                             (TokenUrl resetToken resetURL),
                           s\<lparr>sent := sent s @ [m]\<rparr>)))))"

subsection \<open>resetPassword\<close>

definition resetPassword ::
  "faults \<Rightarrow> env \<Rightarrow> store \<Rightarrow> string option \<Rightarrow> string option \<Rightarrow> outcome \<times> store" where
  "resetPassword f env s tok pw =
     (if falsy tok \<or> falsy pw
      then (Next (mk_error ''Token and password are required'' 400), s)
      else
        (case jwt_verify env (string_of tok) of
           None \<Rightarrow> (Next (mk_error ''Invalid or expired token'' 401), s)
         | Some userId \<Rightarrow>
             await_call f (User_findById userId) s
               (case findById s userId of
                  None \<Rightarrow> (Next (mk_error ''User not found'' 404), s)
                | Some user \<Rightarrow>
                    await_call f (Bcrypt_genSalt 10) s
                      (let salt = bcrypt_genSalt env 10 in
                       await_call f (Bcrypt_hash (string_of pw) salt) s
                         (let hashedPassword = bcrypt_hash env (string_of pw) salt;
                              user1 = user\<lparr>password := hashedPassword, loginAttempts := 0,
                                           isLocked := False\<rparr>
                          in await_call f (User_save user1) s
                               (Json 200 True ''Password reset successful'' NoData,
                                save user1 s))))))"

subsection \<open>verifyEmail\<close>

definition verifyEmail :: "faults \<Rightarrow> env \<Rightarrow> store \<Rightarrow> string \<Rightarrow> outcome \<times> store" where
  "verifyEmail f env s tok =
     (case jwt_verify env tok of
        None \<Rightarrow> (Next (mk_error ''Invalid or expired verification token'' 401), s)
      | Some userId \<Rightarrow>
          await_call f (User_findById userId) s
            (case findById s userId of
               None \<Rightarrow> (Next (mk_error ''User not found'' 404), s)
             | Some user \<Rightarrow>
                 if isVerified user then (Json 400 False ''Email already verified'' NoData, s)
                 else
                   (let user1 = user\<lparr>isVerified := True\<rparr> in
                    await_call f (User_save user1) s
                      (Json 200 True ''Email verified successfully'' NoData, save user1 s))))"

section \<open>The endpoints as one transition system\<close>

text \<open>
  One request to one of the six routes, with the fields its handler reads (and, for
  sign-in, the client address and user agent the request carries).
\<close>

datatype request =
    SignUp string string "string option" "string option"
  | SignIn string "string option" "string option" "string option"
  | SignOut
  | ForgotPassword "string option"
  | ResetPassword "string option" "string option"
  | VerifyEmail string

fun handle :: "faults \<Rightarrow> env \<Rightarrow> store \<Rightarrow> request \<Rightarrow> outcome \<times> store" where
  "handle f env s (SignUp n e pw confirmPassword) = signUp f env s n e pw confirmPassword"
| "handle f env s (SignIn e pw ip ua) = signIn f env s e pw ip ua"
| "handle f env s SignOut = (snd signOut, s)"
| "handle f env s (ForgotPassword e) = forgotPassword f env s e"
| "handle f env s (ResetPassword tok pw) = resetPassword f env s tok pw"
| "handle f env s (VerifyEmail tok) = verifyEmail f env s tok"

text \<open>
  The stores the system can be in: it starts with empty collections, and every request is
  handled against the store the previous one left, with whatever the libraries, the clock,
  the database and the mail transport do at that moment.
\<close>

definition empty_store :: store where
  "empty_store = \<lparr>users = [], loginLogs = [], sent = []\<rparr>"

inductive reachable :: "store \<Rightarrow> bool" where
  reachable_init: "reachable empty_store"
| reachable_step: "reachable s \<Longrightarrow> handle f env s req = (out, s') \<Longrightarrow> reachable s'"

text \<open>
  A run of sign-in attempts on one address, each with a password in the body: the outcome
  and the store after each.
\<close>

fun signIn_attempts ::
  "faults \<Rightarrow> env \<Rightarrow> store \<Rightarrow> string \<Rightarrow> (string \<times> string option \<times> string option) list
     \<Rightarrow> (outcome \<times> store) list" where
  "signIn_attempts f env s e [] = []"
| "signIn_attempts f env s e ((pw, ip, ua) # rest) =
     (let r = signIn f env s e (Some pw) ip ua in r # signIn_attempts f env (snd r) e rest)"

text \<open>A run of requests, each handled against the store the previous one left.\<close>

fun run :: "faults \<Rightarrow> env \<Rightarrow> store \<Rightarrow> request list \<Rightarrow> store" where
  "run f env s [] = s"
| "run f env s (r # rs) = run f env (snd (handle f env s r)) rs"

section \<open>Log entries the properties speak about\<close>

text \<open>
  The entries the properties expect in the log, field by field: a failed attempt with reason
  "Invalid password", and a success. The name is \<^verbatim>\<open>null\<close> for an empty name, and the
  client address and user agent are \<^verbatim>\<open>null\<close>.
\<close>

definition failed_log :: "account \<Rightarrow> string \<Rightarrow> login_log" where
  "failed_log u e = \<lparr>log_userId = Some (uid u),
     log_name = (if name u = [] then None else Some (name u)), log_email = e,
     log_status = ''failed'', ipAddress = None, userAgent = None,
     reason = Some ''Invalid password''\<rparr>"

definition success_log :: "account \<Rightarrow> string \<Rightarrow> login_log" where
  "success_log u e = \<lparr>log_userId = Some (uid u),
     log_name = (if name u = [] then None else Some (name u)), log_email = e,
     log_status = ''success'', ipAddress = None, userAgent = None, reason = None\<rparr>"

section \<open>A concrete instance\<close>

text \<open>
  Libraries small enough to evaluate: hashing prefixes the salt, a token spells the user id
  in unary behind a tag, and the transporter delivers every mail.
\<close>

definition demo_env :: env where
  "demo_env =
     \<lparr>bcrypt_genSalt = (\<lambda>rounds. ''$2a$''),
      bcrypt_hash = (\<lambda>p salt. salt @ p),
      bcrypt_compare = (\<lambda>p h. h = ''$2a$'' @ p),
      jwt_sign = (\<lambda>i expiresIn. ''tok'' @ replicate i (CHR ''x'')),
      jwt_verify = (\<lambda>t. if t = ''tok'' @ replicate (length t - 3) (CHR ''x'')
                         then Some (length t - 3) else None),
      sendMail = (\<lambda>m. None),
      JWT_EXPIRES_IN = ''1d''\<rparr>"

text \<open>The same libraries with a transporter that refuses every mail.\<close>

definition mail_down :: http_error where
  "mail_down = \<lparr>err_message = ''connect ECONNREFUSED'', statusCode = None\<rparr>"

definition demo_env_mail_down :: env where
  "demo_env_mail_down = demo_env\<lparr>sendMail := (\<lambda>m. Some mail_down)\<rparr>"

definition demo_user :: account where
  "demo_user = \<lparr>uid = 0, name = ''A'', email = ''a@x.com'', password = ''$2a$p1'',
     isVerified = True, isLocked = False, loginAttempts = 0\<rparr>"

definition demo_store :: store where
  "demo_store = \<lparr>users = [demo_user], loginLogs = [], sent = []\<rparr>"

text \<open>Sign-up, verification and five sign-in attempts with a wrong password.\<close>

definition demo_lockout_requests :: "request list" where
  "demo_lockout_requests =
     [SignUp ''A'' ''a@x.com'' (Some ''p1'') (Some ''p1''),
      VerifyEmail ''tok'',
      SignIn ''a@x.com'' (Some ''bad'') None None,
      SignIn ''a@x.com'' (Some ''bad'') None None,
      SignIn ''a@x.com'' (Some ''bad'') None None,
      SignIn ''a@x.com'' (Some ''bad'') None None,
      SignIn ''a@x.com'' (Some ''bad'') None None]"

definition demo_unverified :: store where
  "demo_unverified = \<lparr>users = [demo_user\<lparr>isVerified := False\<rparr>], loginLogs = [], sent = []\<rparr>"

text \<open>The account after the fifth wrong password, and a store that holds it.\<close>

definition demo_locked_user :: account where
  "demo_locked_user = demo_user\<lparr>isLocked := True, loginAttempts := 5\<rparr>"

definition demo_locked_store :: store where
  "demo_locked_store = \<lparr>users = [demo_locked_user], loginLogs = [], sent = []\<rparr>"

section \<open>The lockout invariant\<close>

text \<open>Every stored account that is locked has at least five counted attempts.\<close>

definition lock_invariant :: "store \<Rightarrow> bool" where
  "lock_invariant s = list_all (\<lambda>u. isLocked u \<longrightarrow> 5 \<le> loginAttempts u) (users s)"

section \<open>Facts about the collections\<close>

lemma find_map_replace:
  "find P xs = Some u \<Longrightarrow> P u' \<Longrightarrow> uid u = i \<Longrightarrow>
   find P (map (\<lambda>v. if uid v = i then u' else v) xs) = Some u'"
  by (induction xs) (auto split: if_splits)

lemma findOne_save:
  "findOne s e = Some u \<Longrightarrow> email u' = e \<Longrightarrow> uid u' = uid u \<Longrightarrow> findOne (save u' s) e = Some u'"
  unfolding findOne_def save_def by (simp add: find_map_replace [where u = u])

lemma findById_uid: "findById s i = Some u \<Longrightarrow> uid u = i"
  unfolding findById_def by (auto simp: find_Some_iff)

lemma findOne_email: "findOne s e = Some u \<Longrightarrow> email u = e"
  unfolding findOne_def by (auto simp: find_Some_iff)

lemma findById_save:
  "findById s i = Some u \<Longrightarrow> uid u' = i \<Longrightarrow> findById (save u' s) i = Some u'"
  using findById_uid[of s i u] unfolding findById_def save_def
  by (simp add: find_map_replace [where u = u])

lemma findOne_createLoginLog [simp]: "findOne (createLoginLog usr e st r s) e' = findOne s e'"
  by (simp add: findOne_def createLoginLog_def)

lemma findById_createLoginLog [simp]: "findById (createLoginLog usr e st r s) i = findById s i"
  by (simp add: findById_def createLoginLog_def)

lemma loginLogs_save [simp]: "loginLogs (save u s) = loginLogs s"
  by (simp add: save_def)

lemma sent_save [simp]: "sent (save u s) = sent s"
  by (simp add: save_def)

lemma users_createLoginLog [simp]: "users (createLoginLog usr e st r s) = users s"
  by (simp add: createLoginLog_def)

lemma show_nat_digit: "n < 10 \<Longrightarrow> show_nat n = [digit_char n]"
  by (simp add: show_nat.simps)

lemma await_call_no_faults [simp]: "await_call no_faults c s k = k"
  by (simp add: await_call_def no_faults_def)

lemma signIn_wrong_below:
  assumes "findOne s e = Some u" "isVerified u" "\<not> isLocked u"
    and "\<not> bcrypt_compare env pw (password u)" "loginAttempts u + 1 < 5"
  shows "signIn no_faults env s e (Some pw) ip ua =
    (Next (mk_error (''Invalid password. '' @ show_nat (5 - (loginAttempts u + 1)) @ '' attempts remaining'') 401),
     createLoginLog (Some (u\<lparr>loginAttempts := loginAttempts u + 1\<rparr>)) e ''failed'' (Some ''Invalid password'')
       (save (u\<lparr>loginAttempts := loginAttempts u + 1\<rparr>) s))"
  using assms by (simp add: signIn_def Let_def)

lemma signIn_wrong_lock:
  assumes "findOne s e = Some u" "isVerified u" "\<not> isLocked u"
    and "\<not> bcrypt_compare env pw (password u)" "5 \<le> loginAttempts u + 1"
  shows "signIn no_faults env s e (Some pw) ip ua =
    (Next (mk_error ''Account locked due to multiple failed attempts. Please contact administrator'' 403),
     save (u\<lparr>loginAttempts := loginAttempts u + 1, isLocked := True\<rparr>) s)"
  using assms by (simp add: signIn_def Let_def)

lemma login_log_entry_client_fields:
  "ipAddress (login_log_entry usr e st r) = None \<and> userAgent (login_log_entry usr e st r) = None"
  by (simp add: login_log_entry_def typeof_defined_or_null_def scope_ipAddress_def
      scope_userAgent_def)

lemma loginLogs_failed:
  "loginLogs (createLoginLog (Some u) e ''failed'' (Some ''Invalid password'') s)
     = loginLogs s @ [failed_log u e]"
  by (simp add: createLoginLog_def login_log_entry_def failed_log_def or_null_def
      typeof_defined_or_null_def scope_ipAddress_def scope_userAgent_def)

lemma failed_log_attempts [simp]: "failed_log (u\<lparr>loginAttempts := n\<rparr>) e = failed_log u e"
  by (simp add: failed_log_def)

lemma show_nat_remaining:
  "show_nat 4 = ''4''" "show_nat 3 = ''3''" "show_nat 2 = ''2''" "show_nat (Suc 0) = ''1''"
  by (simp_all add: show_nat_digit digit_char_def)

lemma loginLogs_success:
  "loginLogs (createLoginLog (Some u) e ''success'' None s) = loginLogs s @ [success_log u e]"
  by (simp add: createLoginLog_def login_log_entry_def success_log_def or_null_def
      typeof_defined_or_null_def scope_ipAddress_def scope_userAgent_def)

lemma success_log_attempts [simp]: "success_log (u\<lparr>loginAttempts := n\<rparr>) e = success_log u e"
  by (simp add: success_log_def)

lemma find_append_new: "find P xs = None \<Longrightarrow> P u \<Longrightarrow> find P (xs @ [u]) = Some u"
  by (induction xs) (auto split: if_splits)

section \<open>The invariant is kept by every handler\<close>

lemma lock_invariant_save:
  "lock_invariant s \<Longrightarrow> (isLocked u \<longrightarrow> 5 \<le> loginAttempts u) \<Longrightarrow> lock_invariant (save u s)"
  by (auto simp: lock_invariant_def save_def list_all_iff)

lemma lock_invariant_createLoginLog [simp]:
  "lock_invariant (createLoginLog usr e st r s) = lock_invariant s"
  by (simp add: lock_invariant_def)

lemma lock_invariant_sent [simp]: "lock_invariant (s\<lparr>sent := ms\<rparr>) = lock_invariant s"
  by (simp add: lock_invariant_def)

lemma lock_invariant_create:
  "lock_invariant s \<Longrightarrow> lock_invariant (snd (create n e h v s))"
  by (simp add: lock_invariant_def create_def default_isLocked_def Let_def)

lemma lock_invariant_await:
  "lock_invariant s \<Longrightarrow> lock_invariant (snd k) \<Longrightarrow> lock_invariant (snd (await_call f c s k))"
  by (simp add: await_call_def split: option.splits)

lemma lock_invariant_signUp:
  "lock_invariant s \<Longrightarrow> lock_invariant (snd (signUp f env s n e pw c))"
  by (simp add: signUp_def Let_def split_beta lock_invariant_create lock_invariant_await
      split: option.splits)

lemma lock_invariant_signIn_respond:
  "lock_invariant s \<Longrightarrow> lock_invariant (snd (signIn_respond f env e u s))"
  by (simp add: signIn_respond_def Let_def lock_invariant_await)

lemma lock_invariant_signIn:
  "lock_invariant s \<Longrightarrow> lock_invariant (snd (signIn f env s e pw ip ua))"
  by (simp add: signIn_def Let_def lock_invariant_save lock_invariant_await
      lock_invariant_signIn_respond split: option.splits)

lemma lock_invariant_forgotPassword:
  "lock_invariant s \<Longrightarrow> lock_invariant (snd (forgotPassword f env s e))"
  by (simp add: forgotPassword_def Let_def lock_invariant_await split: option.splits)

lemma lock_invariant_resetPassword:
  "lock_invariant s \<Longrightarrow> lock_invariant (snd (resetPassword f env s tok pw))"
  by (simp add: resetPassword_def Let_def lock_invariant_save lock_invariant_await
      split: option.splits)

lemma findById_mem: "findById s i = Some u \<Longrightarrow> u \<in> set (users s)"
  unfolding findById_def by (auto simp: find_Some_iff)

lemma lock_invariant_mem:
  "lock_invariant s \<Longrightarrow> u \<in> set (users s) \<Longrightarrow> isLocked u \<Longrightarrow> 5 \<le> loginAttempts u"
  by (simp add: lock_invariant_def list_all_iff)

lemma lock_invariant_verifyEmail:
  "lock_invariant s \<Longrightarrow> lock_invariant (snd (verifyEmail f env s tok))"
proof -
  assume inv: "lock_invariant s"
  have "lock_invariant (save (u\<lparr>isVerified := True\<rparr>) s)" if "findById s i = Some u" for i u
    using lock_invariant_mem [OF inv findById_mem [OF that]]
    by (intro lock_invariant_save [OF inv]) simp
  then show ?thesis
    using inv
    by (simp add: verifyEmail_def Let_def lock_invariant_await split: option.splits)
qed

lemma lock_invariant_handle:
  "lock_invariant s \<Longrightarrow> lock_invariant (snd (handle f env s req))"
  by (cases req)
    (simp_all add: lock_invariant_signUp lock_invariant_signIn lock_invariant_forgotPassword
      lock_invariant_resetPassword lock_invariant_verifyEmail)

lemma reachable_lock_invariant: "reachable s \<Longrightarrow> lock_invariant s"
proof (induction rule: reachable.induct)
  case reachable_init
  show ?case by (simp add: lock_invariant_def empty_store_def)
next
  case (reachable_step s f env req out s')
  from lock_invariant_handle [OF reachable_step.IH, of f env req] reachable_step.hyps(2)
  show ?case by simp
qed

lemma reachable_run: "reachable s \<Longrightarrow> reachable (run f env s rs)"
proof (induction rs arbitrary: s)
  case Nil
  then show ?case by simp
next
  case (Cons r rs)
  have "reachable (snd (handle f env s r))"
    using Cons.prems
      reachable_step [of s f env r "fst (handle f env s r)" "snd (handle f env s r)"]
    by simp
  then show ?case using Cons.IH by simp
qed

lemma demo_lockout_run:
  "users (run no_faults demo_env empty_store demo_lockout_requests) = [demo_locked_user]"
  by (simp add: demo_lockout_requests_def empty_store_def signUp_def verifyEmail_def signIn_def
      Let_def falsy_def string_of_def findOne_def findById_def create_def save_def
      createLoginLog_def demo_env_def default_isLocked_def default_loginAttempts_def
      demo_locked_user_def demo_user_def verification_mail_def)

section \<open>Sign-in: the lockout counter\<close>

text \<open>
  C1. On an account that is verified, unlocked and has \<open>loginAttempts = 0\<close>, five sign-in
  calls with wrong passwords, none of them cut short by a failing collaborator, go as
  follows. Attempts 1 to 4 each return the 401 error with
  4, 3, 2 and 1 attempts remaining, leave the account stored with the counter at 1, 2, 3
  and 4, and append exactly one failed log entry with reason "Invalid password". The fifth
  returns the 403 error, leaves the account stored with the counter at 5 and \<open>isLocked\<close>
  set, and appends no log entry.
\<close>

theorem signIn_five_wrong_passwords:
  assumes found: "findOne s e = Some u"
    and ver: "isVerified u" and unl: "\<not> isLocked u" and zero: "loginAttempts u = 0"
    and wrong: "\<forall>a \<in> set [a1, a2, a3, a4, a5]. \<not> bcrypt_compare env (fst a) (password u)"
  shows "map fst (signIn_attempts no_faults env s e [a1, a2, a3, a4, a5]) =
           [Next \<lparr>err_message =
               ''Invalid password. 4 attempts remaining'', statusCode = Some 401\<rparr>,
            Next \<lparr>err_message =
               ''Invalid password. 3 attempts remaining'', statusCode = Some 401\<rparr>,
            Next \<lparr>err_message =
               ''Invalid password. 2 attempts remaining'', statusCode = Some 401\<rparr>,
            Next \<lparr>err_message =
               ''Invalid password. 1 attempts remaining'', statusCode = Some 401\<rparr>,
            Next \<lparr>err_message =
               ''Account locked due to multiple failed attempts. Please contact administrator'', statusCode = Some 403\<rparr>]
       \<and> map (\<lambda>r. findOne (snd r) e) (signIn_attempts no_faults env s e [a1, a2, a3, a4, a5]) =
           [Some (u\<lparr>loginAttempts := 1\<rparr>),
            Some (u\<lparr>loginAttempts := 2\<rparr>),
            Some (u\<lparr>loginAttempts := 3\<rparr>),
            Some (u\<lparr>loginAttempts := 4\<rparr>),
            Some (u\<lparr>loginAttempts := 5, isLocked := True\<rparr>)]
       \<and> map (\<lambda>r. loginLogs (snd r)) (signIn_attempts no_faults env s e [a1, a2, a3, a4, a5]) =
           [loginLogs s @ [failed_log u e],
            loginLogs s @ [failed_log u e, failed_log u e],
            loginLogs s @ [failed_log u e, failed_log u e, failed_log u e],
            loginLogs s @ [failed_log u e, failed_log u e, failed_log u e, failed_log u e],
            loginLogs s @ [failed_log u e, failed_log u e, failed_log u e, failed_log u e]]"
proof -
  obtain p1 i1 b1 where a1: "a1 = (p1, i1, b1)" by (cases a1)
  obtain p2 i2 b2 where a2: "a2 = (p2, i2, b2)" by (cases a2)
  obtain p3 i3 b3 where a3: "a3 = (p3, i3, b3)" by (cases a3)
  obtain p4 i4 b4 where a4: "a4 = (p4, i4, b4)" by (cases a4)
  obtain p5 i5 b5 where a5: "a5 = (p5, i5, b5)" by (cases a5)
  have em: "email u = e" using found by (rule findOne_email)
  define u1 where "u1 = u\<lparr>loginAttempts := 1\<rparr>"
  define u2 where "u2 = u\<lparr>loginAttempts := 2\<rparr>"
  define u3 where "u3 = u\<lparr>loginAttempts := 3\<rparr>"
  define u4 where "u4 = u\<lparr>loginAttempts := 4\<rparr>"
  define u5 where "u5 = u\<lparr>loginAttempts := 5, isLocked := True\<rparr>"
  define s1 where "s1 = createLoginLog (Some u1) e ''failed'' (Some ''Invalid password'') (save u1 s)"
  define s2 where "s2 = createLoginLog (Some u2) e ''failed'' (Some ''Invalid password'') (save u2 s1)"
  define s3 where "s3 = createLoginLog (Some u3) e ''failed'' (Some ''Invalid password'') (save u3 s2)"
  define s4 where "s4 = createLoginLog (Some u4) e ''failed'' (Some ''Invalid password'') (save u4 s3)"
  define s5 where "s5 = save u5 s4"
  have w: "\<not> bcrypt_compare env p1 (password u)" "\<not> bcrypt_compare env p2 (password u)"
    "\<not> bcrypt_compare env p3 (password u)" "\<not> bcrypt_compare env p4 (password u)"
    "\<not> bcrypt_compare env p5 (password u)"
    using wrong by (simp_all add: a1 a2 a3 a4 a5)
  have r1: "signIn no_faults env s e (Some p1) i1 b1 =
      (Next \<lparr>err_message =
          ''Invalid password. 4 attempts remaining'', statusCode = Some 401\<rparr>, s1)"
    using signIn_wrong_below [OF found ver unl, of env p1 i1 b1] w(1) zero
    by (simp add: s1_def u1_def show_nat_remaining mk_error_def)
  have f1: "findOne s1 e = Some u1"
    using findOne_save [OF found, of u1] em by (simp add: s1_def u1_def)
  have r2: "signIn no_faults env s1 e (Some p2) i2 b2 =
      (Next \<lparr>err_message =
          ''Invalid password. 3 attempts remaining'', statusCode = Some 401\<rparr>, s2)"
    using signIn_wrong_below [OF f1, of env p2 i2 b2] w(2) ver unl
    by (simp add: s2_def u1_def u2_def show_nat_remaining mk_error_def numeral_2_eq_2 [symmetric])
  have f2: "findOne s2 e = Some u2"
    using findOne_save [OF f1, of u2] em by (simp add: s2_def u1_def u2_def)
  have r3: "signIn no_faults env s2 e (Some p3) i3 b3 =
      (Next \<lparr>err_message =
          ''Invalid password. 2 attempts remaining'', statusCode = Some 401\<rparr>, s3)"
    using signIn_wrong_below [OF f2, of env p3 i3 b3] w(3) ver unl
    by (simp add: s3_def u2_def u3_def show_nat_remaining mk_error_def)
  have f3: "findOne s3 e = Some u3"
    using findOne_save [OF f2, of u3] em by (simp add: s3_def u2_def u3_def)
  have r4: "signIn no_faults env s3 e (Some p4) i4 b4 =
      (Next \<lparr>err_message =
          ''Invalid password. 1 attempts remaining'', statusCode = Some 401\<rparr>, s4)"
    using signIn_wrong_below [OF f3, of env p4 i4 b4] w(4) ver unl
    by (simp add: s4_def u3_def u4_def show_nat_remaining mk_error_def)
  have f4: "findOne s4 e = Some u4"
    using findOne_save [OF f3, of u4] em by (simp add: s4_def u3_def u4_def)
  have r5: "signIn no_faults env s4 e (Some p5) i5 b5 =
      (Next \<lparr>err_message =
          ''Account locked due to multiple failed attempts. Please contact administrator'', statusCode = Some 403\<rparr>,
       s5)"
    using signIn_wrong_lock [OF f4, of env p5 i5 b5] w(5) ver unl
    by (simp add: s5_def u4_def u5_def mk_error_def)
  have f5: "findOne s5 e = Some u5"
    using findOne_save [OF f4, of u5] em by (simp add: s5_def u4_def u5_def)
  have run: "signIn_attempts no_faults env s e [a1, a2, a3, a4, a5] =
      [(Next \<lparr>err_message =
          ''Invalid password. 4 attempts remaining'', statusCode = Some 401\<rparr>, s1),
       (Next \<lparr>err_message =
           ''Invalid password. 3 attempts remaining'', statusCode = Some 401\<rparr>, s2),
       (Next \<lparr>err_message =
           ''Invalid password. 2 attempts remaining'', statusCode = Some 401\<rparr>, s3),
       (Next \<lparr>err_message =
           ''Invalid password. 1 attempts remaining'', statusCode = Some 401\<rparr>, s4),
       (Next \<lparr>err_message =
           ''Account locked due to multiple failed attempts. Please contact administrator'', statusCode = Some 403\<rparr>,
        s5)]"
    by (simp add: a1 a2 a3 a4 a5 r1 r2 r3 r4 r5)
  have l1: "loginLogs s1 = loginLogs s @ [failed_log u e]"
    by (simp add: s1_def u1_def loginLogs_failed)
  have l2: "loginLogs s2 = loginLogs s @ [failed_log u e, failed_log u e]"
    by (simp add: s2_def u2_def loginLogs_failed l1)
  have l3: "loginLogs s3 = loginLogs s @ [failed_log u e, failed_log u e, failed_log u e]"
    by (simp add: s3_def u3_def loginLogs_failed l2)
  have l4: "loginLogs s4 =
      loginLogs s @ [failed_log u e, failed_log u e, failed_log u e, failed_log u e]"
    by (simp add: s4_def u4_def loginLogs_failed l3)
  have l5: "loginLogs s5 = loginLogs s4"
    by (simp add: s5_def)
  show ?thesis
    unfolding run using f1 f2 f3 f4 f5 l1 l2 l3 l4 l5
    by (simp add: u1_def u2_def u3_def u4_def u5_def)
qed

theorem signIn_five_wrong_passwords_witness:
  "findOne demo_store ''a@x.com'' = Some demo_user \<and> isVerified demo_user
   \<and> \<not> isLocked demo_user \<and> loginAttempts demo_user = 0
   \<and> \<not> bcrypt_compare demo_env ''bad'' (password demo_user)
   \<and> map fst (signIn_attempts no_faults demo_env demo_store ''a@x.com''
         [(''bad'', None, None), (''bad'', None, None), (''bad'', None, None),
          (''bad'', None, None), (''bad'', None, None)]) =
       [Next \<lparr>err_message =
           ''Invalid password. 4 attempts remaining'', statusCode = Some 401\<rparr>,
        Next \<lparr>err_message =
           ''Invalid password. 3 attempts remaining'', statusCode = Some 401\<rparr>,
        Next \<lparr>err_message =
           ''Invalid password. 2 attempts remaining'', statusCode = Some 401\<rparr>,
        Next \<lparr>err_message =
           ''Invalid password. 1 attempts remaining'', statusCode = Some 401\<rparr>,
        Next \<lparr>err_message =
           ''Account locked due to multiple failed attempts. Please contact administrator'', statusCode = Some 403\<rparr>]
   \<and> map (\<lambda>r. findOne (snd r) ''a@x.com'') (signIn_attempts no_faults demo_env demo_store ''a@x.com''
         [(''bad'', None, None), (''bad'', None, None), (''bad'', None, None),
          (''bad'', None, None), (''bad'', None, None)]) =
       [Some (demo_user\<lparr>loginAttempts := 1\<rparr>),
        Some (demo_user\<lparr>loginAttempts := 2\<rparr>),
        Some (demo_user\<lparr>loginAttempts := 3\<rparr>),
        Some (demo_user\<lparr>loginAttempts := 4\<rparr>),
        Some (demo_user\<lparr>loginAttempts := 5, isLocked := True\<rparr>)]"
proof -
  have f: "findOne demo_store ''a@x.com'' = Some demo_user"
    by (simp add: findOne_def demo_store_def demo_user_def)
  have nb: "\<not> bcrypt_compare demo_env ''bad'' (password demo_user)"
    by (simp add: demo_env_def demo_user_def)
  have w: "\<forall>a \<in> set [(''bad'', None, None), (''bad'', None, None), (''bad'', None, None),
          (''bad'', None :: string option, None :: string option), (''bad'', None, None)].
        \<not> bcrypt_compare demo_env (fst a) (password demo_user)"
    using nb by simp
  have v: "isVerified demo_user" "\<not> isLocked demo_user" "loginAttempts demo_user = 0"
    by (simp_all add: demo_user_def)
  show ?thesis
    using signIn_five_wrong_passwords [OF f v w] f v nb by blast
qed

text \<open>
  C2. In every store the system can reach from the empty one by any sequence of requests
  (sign-up, sign-in, sign-out, forgot-password, reset-password, verify-email, with any
  behaviour of the libraries and any collaborator call failing), a locked account has \<open>loginAttempts \<ge> 5\<close>: sign-up
  creates accounts unlocked with the counter at 0, sign-in sets \<open>isLocked\<close> only where
  the counter has reached 5, and reset-password clears both together.
\<close>

theorem locked_implies_five_attempts:
  assumes "reachable s" and "u \<in> set (users s)" and "isLocked u"
  shows "5 \<le> loginAttempts u"
  using assms by (auto dest: reachable_lock_invariant lock_invariant_mem)

theorem locked_implies_five_attempts_witness:
  "reachable (run no_faults demo_env empty_store demo_lockout_requests)
   \<and> demo_locked_user \<in> set (users (run no_faults demo_env empty_store demo_lockout_requests))
   \<and> isLocked demo_locked_user
   \<and> 5 \<le> loginAttempts demo_locked_user"
proof -
  have r: "reachable (run no_faults demo_env empty_store demo_lockout_requests)"
    by (rule reachable_run [OF reachable_init])
  have m: "demo_locked_user \<in> set (users (run no_faults demo_env empty_store demo_lockout_requests))"
    by (simp add: demo_lockout_run)
  have l: "isLocked demo_locked_user" by (simp add: demo_locked_user_def)
  show ?thesis
    using locked_implies_five_attempts [OF r m l] r m l
    by (intro conjI) assumption+
qed

text \<open>
  C3. On a verified, unlocked account with \<open>loginAttempts > 0\<close>, a sign-in call with a
  password that matches, and with no collaborator call failing, resets the counter to 0 and saves the account, issues a token for
  the account's id, appends exactly one success log entry, and responds 200 with the token
  and the account.
\<close>

theorem signIn_success_resets_attempts:
  assumes found: "findOne s e = Some u"
    and ver: "isVerified u" and unl: "\<not> isLocked u" and pos: "loginAttempts u > 0"
    and ok: "bcrypt_compare env pw (password u)"
  shows "fst (signIn no_faults env s e (Some pw) ip ua) =
           Json 200 True ''User signed in successfully''
             (TokenUser (jwt_sign env (uid u) (JWT_EXPIRES_IN env)) (u\<lparr>loginAttempts := 0\<rparr>))
       \<and> findOne (snd (signIn no_faults env s e (Some pw) ip ua)) e = Some (u\<lparr>loginAttempts := 0\<rparr>)
       \<and> users (snd (signIn no_faults env s e (Some pw) ip ua)) = users (save (u\<lparr>loginAttempts := 0\<rparr>) s)
       \<and> loginLogs (snd (signIn no_faults env s e (Some pw) ip ua)) = loginLogs s @ [success_log u e]"
proof -
  have em: "email u = e" using found by (rule findOne_email)
  have r: "signIn no_faults env s e (Some pw) ip ua =
      (Json 200 True ''User signed in successfully''
         (TokenUser (jwt_sign env (uid u) (JWT_EXPIRES_IN env)) (u\<lparr>loginAttempts := 0\<rparr>)),
       createLoginLog (Some (u\<lparr>loginAttempts := 0\<rparr>)) e ''success'' None
         (save (u\<lparr>loginAttempts := 0\<rparr>) s))"
    using assms by (simp add: signIn_def signIn_respond_def Let_def)
  have f: "findOne (save (u\<lparr>loginAttempts := 0\<rparr>) s) e = Some (u\<lparr>loginAttempts := 0\<rparr>)"
    using findOne_save [OF found, of "u\<lparr>loginAttempts := 0\<rparr>"] em by simp
  show ?thesis
    unfolding r using f by (simp add: loginLogs_success)
qed

theorem signIn_success_resets_attempts_witness:
  "findOne (save (demo_user\<lparr>loginAttempts := 3\<rparr>) demo_store) ''a@x.com''
     = Some (demo_user\<lparr>loginAttempts := 3\<rparr>)
   \<and> isVerified (demo_user\<lparr>loginAttempts := 3\<rparr>)
   \<and> \<not> isLocked (demo_user\<lparr>loginAttempts := 3\<rparr>)
   \<and> loginAttempts (demo_user\<lparr>loginAttempts := 3\<rparr>) > 0
   \<and> bcrypt_compare demo_env ''p1'' (password (demo_user\<lparr>loginAttempts := 3\<rparr>))
   \<and> fst (signIn no_faults demo_env (save (demo_user\<lparr>loginAttempts := 3\<rparr>) demo_store) ''a@x.com''
         (Some ''p1'')
         None None) =
       Json 200 True ''User signed in successfully'' (TokenUser ''tok'' demo_user)
   \<and> findOne (snd (signIn no_faults demo_env (save (demo_user\<lparr>loginAttempts := 3\<rparr>) demo_store)
         ''a@x.com'' (Some ''p1'') None None)) ''a@x.com'' = Some demo_user
   \<and> loginLogs (snd (signIn no_faults demo_env (save (demo_user\<lparr>loginAttempts := 3\<rparr>) demo_store)
         ''a@x.com'' (Some ''p1'') None None)) = [success_log demo_user ''a@x.com'']"
proof -
  let ?u = "demo_user\<lparr>loginAttempts := 3\<rparr>"
  let ?s = "save ?u demo_store"
  have f: "findOne ?s ''a@x.com'' = Some ?u"
    by (simp add: findOne_def save_def demo_store_def demo_user_def)
  have v: "isVerified ?u" "\<not> isLocked ?u" "loginAttempts ?u > 0"
    by (simp_all add: demo_user_def)
  have ok: "bcrypt_compare demo_env ''p1'' (password ?u)"
    by (simp add: demo_env_def demo_user_def)
  have z: "?u\<lparr>loginAttempts := 0\<rparr> = demo_user" by (simp add: demo_user_def)
  have t: "jwt_sign demo_env (uid demo_user) (JWT_EXPIRES_IN demo_env) = ''tok''"
    by (simp add: demo_env_def demo_user_def)
  have l: "loginLogs demo_store = []" by (simp add: demo_store_def)
  show ?thesis
    using signIn_success_resets_attempts [OF f v ok, of None None] f v ok
    by (simp add: z t l)
qed

section \<open>Reset-password and verify-email\<close>

text \<open>
  C4, as amended. A reset-password call whose token or password is missing or empty is
  answered with the 400 error and changes nothing, whatever the collaborators do. A call
  with a non-empty token that verifies, whose subject is a stored account, and with a
  non-empty new password responds 200 (no collaborator call failing) and leaves the account
  stored with the hash of the new password, \<open>loginAttempts = 0\<close> and \<open>isLocked = False\<close>.
  From then on sign-in decides on the new hash alone: on a verified account found by its
  address, a password signs in exactly when \<^verbatim>\<open>bcrypt.compare\<close> accepts it against the
  hash of the new password, and is refused with 401 otherwise. So the new password signs in
  whenever the library accepts a password against its own hash, and the old one is refused
  only if the library rejects it against the new hash.
\<close>

theorem resetPassword_round_trip:
  "(tok = None \<or> tok = Some [] \<or> pw = None \<or> pw = Some [] \<longrightarrow>
      resetPassword f env s tok pw =
        (Next \<lparr>err_message =
            ''Token and password are required'', statusCode = Some 400\<rparr>, s))
   \<and> (t \<noteq> [] \<and> p \<noteq> [] \<and> jwt_verify env t = Some i \<and> findById s i = Some u \<longrightarrow>
        (let h = bcrypt_hash env p (bcrypt_genSalt env 10);
             u' = u\<lparr>password := h, loginAttempts := 0, isLocked := False\<rparr>
         in resetPassword no_faults env s (Some t) (Some p) =
              (Json 200 True ''Password reset successful'' NoData, save u' s)
          \<and> findById (save u' s) i = Some u'
          \<and> (isVerified u \<and> findOne s (email u) = Some u \<longrightarrow>
               (\<forall>q ip ua.
                  fst (signIn no_faults env (save u' s) (email u) (Some q) ip ua) =
                    (if bcrypt_compare env q h
                     then Json 200 True ''User signed in successfully''
                            (TokenUser (jwt_sign env (uid u) (JWT_EXPIRES_IN env)) u')
                     else Next \<lparr>err_message = ''Invalid password. 4 attempts remaining'',
                                 statusCode = Some 401\<rparr>)))))"
proof (intro conjI impI)
  assume "tok = None \<or> tok = Some [] \<or> pw = None \<or> pw = Some []"
  then have "falsy tok \<or> falsy pw" by (auto simp: falsy_def)
  then show "resetPassword f env s tok pw =
      (Next \<lparr>err_message =
          ''Token and password are required'', statusCode = Some 400\<rparr>, s)"
    by (simp add: resetPassword_def mk_error_def)
next
  assume a: "t \<noteq> [] \<and> p \<noteq> [] \<and> jwt_verify env t = Some i \<and> findById s i = Some u"
  define h where "h = bcrypt_hash env p (bcrypt_genSalt env 10)"
  define u' where "u' = u\<lparr>password := h, loginAttempts := 0, isLocked := False\<rparr>"
  have found: "findById s i = Some u" using a by simp
  have i: "uid u = i" using found by (rule findById_uid)
  have r: "resetPassword no_faults env s (Some t) (Some p) =
      (Json 200 True ''Password reset successful'' NoData, save u' s)"
    using a by (simp add: resetPassword_def falsy_def string_of_def Let_def u'_def h_def)
  have fi: "findById (save u' s) i = Some u'"
    by (rule findById_save [OF found]) (simp add: i u'_def)
  have si: "fst (signIn no_faults env (save u' s) (email u) (Some q) ip ua) =
        (if bcrypt_compare env q h
         then Json 200 True ''User signed in successfully''
                (TokenUser (jwt_sign env (uid u) (JWT_EXPIRES_IN env)) u')
         else Next \<lparr>err_message = ''Invalid password. 4 attempts remaining'',
                     statusCode = Some 401\<rparr>)"
    if v: "isVerified u \<and> findOne s (email u) = Some u" for q ip ua
  proof -
    have fo: "findOne (save u' s) (email u) = Some u'"
      by (rule findOne_save [where u = u]) (use v in \<open>simp_all add: u'_def\<close>)
    have p': "password u' = h" "isVerified u'" "\<not> isLocked u'" "loginAttempts u' = 0"
      "uid u' = uid u"
      using v by (simp_all add: u'_def)
    show ?thesis
    proof (cases "bcrypt_compare env q h")
      case True
      then show ?thesis
        using fo p' by (simp add: signIn_def signIn_respond_def Let_def)
    next
      case False
      have "signIn no_faults env (save u' s) (email u) (Some q) ip ua =
          (Next (mk_error (''Invalid password. '' @ show_nat (5 - (loginAttempts u' + 1))
             @ '' attempts remaining'') 401),
           createLoginLog (Some (u'\<lparr>loginAttempts := loginAttempts u' + 1\<rparr>)) (email u)
             ''failed'' (Some ''Invalid password'')
             (save (u'\<lparr>loginAttempts := loginAttempts u' + 1\<rparr>) (save u' s)))"
        by (rule signIn_wrong_below [OF fo]) (use False p' in simp_all)
      then show ?thesis
        using False p' by (simp add: mk_error_def show_nat_remaining)
    qed
  qed
  show "let h = bcrypt_hash env p (bcrypt_genSalt env 10);
            u' = u\<lparr>password := h, loginAttempts := 0, isLocked := False\<rparr>
        in resetPassword no_faults env s (Some t) (Some p) =
             (Json 200 True ''Password reset successful'' NoData, save u' s)
         \<and> findById (save u' s) i = Some u'
         \<and> (isVerified u \<and> findOne s (email u) = Some u \<longrightarrow>
              (\<forall>q ip ua.
                 fst (signIn no_faults env (save u' s) (email u) (Some q) ip ua) =
                   (if bcrypt_compare env q h
                    then Json 200 True ''User signed in successfully''
                           (TokenUser (jwt_sign env (uid u) (JWT_EXPIRES_IN env)) u')
                    else Next \<lparr>err_message = ''Invalid password. 4 attempts remaining'',
                                statusCode = Some 401\<rparr>)))"
    unfolding Let_def h_def [symmetric] u'_def [symmetric]
    using r fi si by blast
qed

theorem resetPassword_round_trip_witness:
  "''tok'' \<noteq> [] \<and> ''p2'' \<noteq> [] \<and> jwt_verify demo_env ''tok'' = Some 0
   \<and> findById demo_locked_store 0 = Some demo_locked_user
   \<and> isVerified demo_locked_user
   \<and> findOne demo_locked_store (email demo_locked_user) = Some demo_locked_user
   \<and> resetPassword no_faults demo_env demo_locked_store (Some ''tok'') None =
       (Next \<lparr>err_message =
           ''Token and password are required'', statusCode = Some 400\<rparr>,
        demo_locked_store)
   \<and> resetPassword no_faults demo_env demo_locked_store (Some ''tok'') (Some ''p2'') =
       (Json 200 True ''Password reset successful'' NoData,
        \<lparr>users = [demo_user\<lparr>password := ''$2a$p2''\<rparr>], loginLogs = [], sent = []\<rparr>)
   \<and> fst (signIn no_faults demo_env
          \<lparr>users = [demo_user\<lparr>password := ''$2a$p2''\<rparr>], loginLogs = [], sent = []\<rparr>
          ''a@x.com'' (Some ''p2'') None None) =
       Json 200 True ''User signed in successfully''
         (TokenUser ''tok'' (demo_user\<lparr>password := ''$2a$p2''\<rparr>))
   \<and> fst (signIn no_faults demo_env
          \<lparr>users = [demo_user\<lparr>password := ''$2a$p2''\<rparr>], loginLogs = [], sent = []\<rparr>
          ''a@x.com'' (Some ''p1'') None None) =
       Next \<lparr>err_message =
          ''Invalid password. 4 attempts remaining'', statusCode = Some 401\<rparr>"
proof -
  have hyp: "''tok'' \<noteq> [] \<and> ''p2'' \<noteq> [] \<and> jwt_verify demo_env ''tok'' = Some 0
      \<and> findById demo_locked_store 0 = Some demo_locked_user"
    by (simp add: demo_env_def findById_def demo_locked_store_def demo_locked_user_def
        demo_user_def)
  have hyp2: "isVerified demo_locked_user
      \<and> findOne demo_locked_store (email demo_locked_user) = Some demo_locked_user"
    by (simp add: findOne_def demo_locked_store_def demo_locked_user_def demo_user_def)
  have hv: "bcrypt_hash demo_env ''p2'' (bcrypt_genSalt demo_env 10) = ''$2a$p2''"
    by (simp add: demo_env_def)
  have uv: "demo_locked_user\<lparr>password := ''$2a$p2'', loginAttempts := 0, isLocked := False\<rparr>
      = demo_user\<lparr>password := ''$2a$p2''\<rparr>"
    by (simp add: demo_locked_user_def demo_user_def)
  have sv: "save (demo_user\<lparr>password := ''$2a$p2''\<rparr>) demo_locked_store =
      \<lparr>users = [demo_user\<lparr>password := ''$2a$p2''\<rparr>], loginLogs = [], sent = []\<rparr>"
    by (simp add: save_def demo_locked_store_def demo_locked_user_def demo_user_def)
  have ev: "email demo_locked_user = ''a@x.com''" "uid demo_locked_user = 0"
    "jwt_sign demo_env 0 (JWT_EXPIRES_IN demo_env) = ''tok''"
    "bcrypt_compare demo_env ''p2'' ''$2a$p2''" "\<not> bcrypt_compare demo_env ''p1'' ''$2a$p2''"
    by (simp_all add: demo_locked_user_def demo_user_def demo_env_def)
  note T = resetPassword_round_trip [where tok = "Some ''tok''" and pw = None and f = no_faults
      and env = demo_env and s = demo_locked_store and t = "''tok''" and p = "''p2''" and i = 0
      and u = demo_locked_user]
  have A: "resetPassword no_faults demo_env demo_locked_store (Some ''tok'') None =
       (Next \<lparr>err_message =
           ''Token and password are required'', statusCode = Some 400\<rparr>,
        demo_locked_store)"
    using T [THEN conjunct1] by simp
  note B = T [THEN conjunct2, THEN mp, OF hyp, unfolded Let_def hv uv sv]
  have B1: "resetPassword no_faults demo_env demo_locked_store (Some ''tok'') (Some ''p2'') =
       (Json 200 True ''Password reset successful'' NoData,
        \<lparr>users = [demo_user\<lparr>password := ''$2a$p2''\<rparr>], loginLogs = [], sent = []\<rparr>)"
    using B by (rule conjunct1)
  note C = B [THEN conjunct2, THEN conjunct2, THEN mp, OF hyp2, unfolded ev(1,2,3)]
  have C1: "fst (signIn no_faults demo_env
          \<lparr>users = [demo_user\<lparr>password := ''$2a$p2''\<rparr>], loginLogs = [], sent = []\<rparr>
          ''a@x.com'' (Some ''p2'') None None) =
       Json 200 True ''User signed in successfully''
         (TokenUser ''tok'' (demo_user\<lparr>password := ''$2a$p2''\<rparr>))"
    using C [rule_format, of "''p2''" None None] ev(4) by (simp only: if_True)
  have C2: "fst (signIn no_faults demo_env
          \<lparr>users = [demo_user\<lparr>password := ''$2a$p2''\<rparr>], loginLogs = [], sent = []\<rparr>
          ''a@x.com'' (Some ''p1'') None None) =
       Next \<lparr>err_message =
          ''Invalid password. 4 attempts remaining'', statusCode = Some 401\<rparr>"
    using C [rule_format, of "''p1''" None None] ev(5) by (simp only: if_False)
  show ?thesis
    using hyp hyp2 A B1 C1 C2 by (elim conjE, intro conjI) assumption+
qed

text \<open>
  Where the claim as first stated fails: with a valid token and an empty or missing new
  password the call is refused with 400 and the store is untouched; and when the new
  password is the old one, the old password still signs in after the reset.
\<close>

theorem resetPassword_round_trip_counterexample:
  "resetPassword no_faults demo_env demo_locked_store (Some ''tok'') (Some []) =
     (Next \<lparr>err_message = ''Token and password are required'', statusCode = Some 400\<rparr>,
      demo_locked_store)
   \<and> resetPassword no_faults demo_env demo_locked_store (Some ''tok'') None =
     (Next \<lparr>err_message = ''Token and password are required'', statusCode = Some 400\<rparr>,
      demo_locked_store)
   \<and> bcrypt_compare demo_env ''p1'' (password demo_locked_user)
   \<and> resetPassword no_faults demo_env demo_locked_store (Some ''tok'') (Some ''p1'') =
       (Json 200 True ''Password reset successful'' NoData, demo_store)
   \<and> fst (signIn no_faults demo_env demo_store ''a@x.com'' (Some ''p1'') None None) =
       Json 200 True ''User signed in successfully'' (TokenUser ''tok'' demo_user)"
  by (simp add: resetPassword_def signIn_def signIn_respond_def falsy_def string_of_def Let_def
      demo_env_def demo_locked_store_def demo_locked_user_def demo_user_def demo_store_def
      findById_def findOne_def save_def mk_error_def)

text \<open>
  C5. Verify-email with a token that verifies, for a stored account that is not verified
  (and no collaborator call failing), responds 200 and saves the account with \<open>isVerified\<close> set. The same call again is
  answered by the handler itself with the 400 "Email already verified" response, not
  through \<^verbatim>\<open>next\<close>, and leaves the store as it is.
\<close>

theorem verifyEmail_then_replay:
  assumes tok: "jwt_verify env tok = Some i"
    and found: "findById s i = Some u" and unv: "\<not> isVerified u"
  shows "verifyEmail no_faults env s tok =
           (Json 200 True ''Email verified successfully'' NoData, save (u\<lparr>isVerified := True\<rparr>) s)
       \<and> findById (save (u\<lparr>isVerified := True\<rparr>) s) i = Some (u\<lparr>isVerified := True\<rparr>)
       \<and> verifyEmail no_faults env (save (u\<lparr>isVerified := True\<rparr>) s) tok =
           (Json 400 False ''Email already verified'' NoData, save (u\<lparr>isVerified := True\<rparr>) s)"
proof -
  have i: "uid u = i" using found by (rule findById_uid)
  have f: "findById (save (u\<lparr>isVerified := True\<rparr>) s) i = Some (u\<lparr>isVerified := True\<rparr>)"
    using findById_save [OF found, of "u\<lparr>isVerified := True\<rparr>"] i by simp
  have first: "verifyEmail no_faults env s tok =
      (Json 200 True ''Email verified successfully'' NoData, save (u\<lparr>isVerified := True\<rparr>) s)"
    using assms by (simp add: verifyEmail_def Let_def)
  have second: "verifyEmail no_faults env (save (u\<lparr>isVerified := True\<rparr>) s) tok =
      (Json 400 False ''Email already verified'' NoData, save (u\<lparr>isVerified := True\<rparr>) s)"
    using tok f by (simp add: verifyEmail_def)
  show ?thesis using first f second by blast
qed

theorem verifyEmail_then_replay_witness:
  "jwt_verify demo_env ''tok'' = Some 0
   \<and> findById demo_unverified 0 = Some (demo_user\<lparr>isVerified := False\<rparr>)
   \<and> \<not> isVerified (demo_user\<lparr>isVerified := False\<rparr>)
   \<and> verifyEmail no_faults demo_env demo_unverified ''tok'' =
       (Json 200 True ''Email verified successfully'' NoData, demo_store)
   \<and> verifyEmail no_faults demo_env demo_store ''tok'' =
       (Json 400 False ''Email already verified'' NoData, demo_store)"
proof -
  let ?u = "demo_user\<lparr>isVerified := False\<rparr>"
  have t: "jwt_verify demo_env ''tok'' = Some 0" by (simp add: demo_env_def)
  have f: "findById demo_unverified 0 = Some ?u"
    by (simp add: findById_def demo_unverified_def demo_user_def)
  have v: "\<not> isVerified ?u" by simp
  have s: "save (?u\<lparr>isVerified := True\<rparr>) demo_unverified = demo_store"
    by (simp add: save_def demo_unverified_def demo_store_def demo_user_def)
  show ?thesis
    using verifyEmail_then_replay [OF t f v] t f v unfolding s by blast
qed

section \<open>Sign-up\<close>

text \<open>
  C6, as amended. A sign-up call whose \<^verbatim>\<open>password\<close> differs from its
  \<^verbatim>\<open>confirmPassword\<close> (the lookup of the address not failing) creates no account. It is answered with status 400, directly when
  \<^verbatim>\<open>confirmPassword\<close> is missing or empty and through \<^verbatim>\<open>next\<close> otherwise, unless
  \<^verbatim>\<open>confirmPassword\<close> is present and an account with the address exists: the handler
  looks for the existing account before it compares the passwords, and the answer is then
  the 409 error.
\<close>

theorem signUp_password_mismatch:
  assumes "pw \<noteq> confirmPassword"
  shows "snd (signUp no_faults env s n e pw confirmPassword) = s
       \<and> fst (signUp no_faults env s n e pw confirmPassword) =
           (if falsy confirmPassword then Json 400 False ''Confirm password is empty'' NoData
            else if findOne s e \<noteq> None then Next \<lparr>err_message = ''User already exists'', statusCode = Some 409\<rparr>
            else Next \<lparr>err_message = ''Passwords do not match'', statusCode = Some 400\<rparr>)"
  using assms by (simp add: signUp_def Let_def mk_error_def)

theorem signUp_password_mismatch_witness:
  "Some ''p1'' \<noteq> Some ''p2''
   \<and> signUp no_faults demo_env empty_store ''A'' ''a@x.com'' (Some ''p1'') (Some ''p2'') =
       (Next \<lparr>err_message =
           ''Passwords do not match'', statusCode = Some 400\<rparr>, empty_store)"
  using signUp_password_mismatch [of "Some ''p1''" "Some ''p2''" demo_env empty_store "''A''"
      "''a@x.com''"]
  by (simp add: prod_eq_iff falsy_def findOne_def empty_store_def)

text \<open>
  Where the claim as first stated fails: mismatched passwords for an address that is taken
  give 409, not 400.
\<close>

theorem signUp_password_mismatch_counterexample:
  "Some ''p1'' \<noteq> Some ''p2''
   \<and> findOne demo_store ''a@x.com'' = Some demo_user
   \<and> signUp no_faults demo_env demo_store ''A'' ''a@x.com'' (Some ''p1'') (Some ''p2'') =
       (Next \<lparr>err_message =
           ''User already exists'', statusCode = Some 409\<rparr>, demo_store)"
  by (simp add: signUp_def Let_def falsy_def findOne_def demo_store_def demo_user_def mk_error_def)

text \<open>
  C9. In a sign-up call that passes every check (a non-empty \<^verbatim>\<open>confirmPassword\<close> equal
  to \<^verbatim>\<open>password\<close>, no account with the address, no other collaborator failing) and
  whose verification mail the transporter refuses, the transporter's error is handed to \<^verbatim>\<open>next\<close>, and the account
  created before the send stays in the store: unverified, unlocked, with the counter at 0.
\<close>

theorem signUp_mail_failure_keeps_account:
  assumes conf: "confirmPassword \<noteq> []"
    and fresh: "findOne s e = None"
    and fails: "sendMail env
        (verification_mail n e (jwt_sign env (length (users s)) (JWT_EXPIRES_IN env))) = Some err"
  shows "fst (signUp no_faults env s n e (Some confirmPassword) (Some confirmPassword)) = Next err
       \<and> users (snd (signUp no_faults env s n e (Some confirmPassword) (Some confirmPassword))) =
           users s @ [\<lparr>uid = length (users s), name = n, email = e,
              password = bcrypt_hash env confirmPassword (bcrypt_genSalt env 10),
              isVerified = False, isLocked = False, loginAttempts = 0\<rparr>]
       \<and> findOne (snd (signUp no_faults env s n e (Some confirmPassword) (Some confirmPassword))) e =
           Some \<lparr>uid = length (users s), name = n, email = e,
              password = bcrypt_hash env confirmPassword (bcrypt_genSalt env 10),
              isVerified = False, isLocked = False, loginAttempts = 0\<rparr>"
proof -
  let ?u = "\<lparr>uid = length (users s), name = n, email = e,
              password = bcrypt_hash env confirmPassword (bcrypt_genSalt env 10),
              isVerified = False, isLocked = False, loginAttempts = 0\<rparr>"
  have r: "signUp no_faults env s n e (Some confirmPassword) (Some confirmPassword) =
      (Next err, s\<lparr>users := users s @ [?u]\<rparr>)"
    using assms
    by (simp add: signUp_def Let_def falsy_def string_of_def create_def default_isLocked_def
        default_loginAttempts_def)
  have f: "findOne (s\<lparr>users := users s @ [?u]\<rparr>) e = Some ?u"
    using fresh by (simp add: findOne_def find_append_new)
  show ?thesis unfolding r using f by simp
qed

theorem signUp_mail_failure_keeps_account_witness:
  "''p1'' \<noteq> [] \<and> findOne empty_store ''a@x.com'' = None
   \<and> sendMail demo_env_mail_down
        (verification_mail ''A'' ''a@x.com''
           (jwt_sign demo_env_mail_down (length (users empty_store))
              (JWT_EXPIRES_IN demo_env_mail_down))) = Some mail_down
   \<and> fst (signUp no_faults demo_env_mail_down empty_store ''A'' ''a@x.com'' (Some ''p1'') (Some ''p1''))
       = Next mail_down
   \<and> findOne (snd (signUp no_faults demo_env_mail_down empty_store ''A'' ''a@x.com'' (Some ''p1'')
         (Some ''p1''))) ''a@x.com'' = Some (demo_user\<lparr>isVerified := False\<rparr>)"
proof -
  have a: "''p1'' \<noteq> []" by simp
  have f: "findOne empty_store ''a@x.com'' = None" by (simp add: findOne_def empty_store_def)
  have m: "sendMail demo_env_mail_down
        (verification_mail ''A'' ''a@x.com''
           (jwt_sign demo_env_mail_down (length (users empty_store))
              (JWT_EXPIRES_IN demo_env_mail_down))) = Some mail_down"
    by (simp add: demo_env_mail_down_def)
  have u: "\<lparr>uid = length (users empty_store), name = ''A'', email = ''a@x.com'',
              password = bcrypt_hash demo_env_mail_down ''p1'' (bcrypt_genSalt demo_env_mail_down 10),
              isVerified = False, isLocked = False, loginAttempts = 0\<rparr>
      = demo_user\<lparr>isVerified := False\<rparr>"
    by (simp add: demo_user_def demo_env_mail_down_def demo_env_def empty_store_def)
  show ?thesis
    using signUp_mail_failure_keeps_account [OF a f m, unfolded u] a f m
    by (elim conjE, intro conjI) assumption+
qed

section \<open>Error propagation\<close>




text \<open>
  C8. What forgot-password does when \<^verbatim>\<open>email\<close> is missing or empty: the error it hands
  to \<^verbatim>\<open>next\<close> has status code 401, where the missing-field checks of sign-up and
  reset-password use 400.
\<close>

theorem forgotPassword_missing_email_status:
  "forgotPassword f env s None =
     (Next \<lparr>err_message = ''Email is required'', statusCode = Some 401\<rparr>, s)
   \<and> forgotPassword f env s (Some []) =
     (Next \<lparr>err_message = ''Email is required'', statusCode = Some 401\<rparr>, s)"
  by (simp add: forgotPassword_def falsy_def mk_error_def)

section \<open>The login log\<close>

text \<open>
  C10. Whatever the request carries as client address and user agent, and whatever the
  collaborators do, every log entry a sign-in call appends has \<open>ipAddress = None\<close> and
  \<open>userAgent = None\<close>.
\<close>

theorem signIn_log_client_fields_null:
  "\<exists>new. loginLogs (snd (signIn f env s e pw req_ip req_userAgent)) = loginLogs s @ new
     \<and> (\<forall>l \<in> set new. ipAddress l = None \<and> userAgent l = None)"
proof -
  have "loginLogs (snd (signIn f env s e pw req_ip req_userAgent)) = loginLogs s
      \<or> (\<exists>u st r. loginLogs (snd (signIn f env s e pw req_ip req_userAgent))
            = loginLogs s @ [login_log_entry u e st r])"
    by (auto simp: signIn_def signIn_respond_def await_call_def Let_def createLoginLog_def
        save_def split: option.splits)
  then show ?thesis
  proof
    assume "loginLogs (snd (signIn f env s e pw req_ip req_userAgent)) = loginLogs s"
    then have "loginLogs (snd (signIn f env s e pw req_ip req_userAgent)) = loginLogs s @ []
      \<and> (\<forall>l \<in> set []. ipAddress l = None \<and> userAgent l = None)" by simp
    then show ?thesis by blast
  next
    assume "\<exists>u st r. loginLogs (snd (signIn f env s e pw req_ip req_userAgent))
            = loginLogs s @ [login_log_entry u e st r]"
    then obtain u st r where
      "loginLogs (snd (signIn f env s e pw req_ip req_userAgent))
         = loginLogs s @ [login_log_entry u e st r]" by blast
    then show ?thesis
      by (simp add: login_log_entry_client_fields)
  qed
qed

theorem signIn_log_client_fields_null_witness:
  "loginLogs (snd (signIn no_faults demo_env demo_store ''a@x.com'' (Some ''p1'')
      (Some ''203.0.113.9'') (Some ''curl/8.0''))) =
     [\<lparr>log_userId = Some 0, log_name = Some ''A'', log_email = ''a@x.com'',
       log_status = ''success'', ipAddress = None, userAgent = None, reason = None\<rparr>]
   \<and> loginLogs (snd (signIn no_faults demo_env demo_store ''a@x.com'' (Some ''bad'')
      (Some ''203.0.113.9'') (Some ''curl/8.0''))) =
     [\<lparr>log_userId = Some 0, log_name = Some ''A'', log_email = ''a@x.com'',
       log_status = ''failed'', ipAddress = None, userAgent = None,
       reason = Some ''Invalid password''\<rparr>]"
  using signIn_log_client_fields_null [of no_faults demo_env demo_store "''a@x.com''"
      "Some ''p1''" "Some ''203.0.113.9''" "Some ''curl/8.0''"]
  by (simp add: signIn_def signIn_respond_def Let_def findOne_def demo_store_def demo_user_def
      demo_env_def createLoginLog_def login_log_entry_def save_def or_null_def
      typeof_defined_or_null_def scope_ipAddress_def scope_userAgent_def)

end
